theory Spec2Isabelle
  imports Main "HOL-Library.AList" "HOL-Library.Sublist"
begin

section \<open>Values, frames and event records\<close>

text \<open>
  The payloads carried by the message classes the processor inspects (text content, tool-call
  arguments parsed from the model's output, tool results) are JSON data. On such values
  \<^verbatim>\<open>json.dumps(event, ensure_ascii=False)\<close> always succeeds, so a yielded frame is modelled
  by the JSON value it serialises. A Python \<^verbatim>\<open>str\<close> is modelled by its UTF-8 bytes, a Python
  \<^verbatim>\<open>dict\<close> with string keys by an association list in insertion order.
\<close>

datatype json =
    JNull
  | JBool bool
  | JInt int
  | JStr string
  | JList "json list"
  | JObj "(string \<times> json) list"

type_synonym pydict = "(string \<times> json) list"

text \<open>
  One yielded SSE string. \<open>Data v\<close> is \<^verbatim>\<open>"data: " + json.dumps(v) + "\n\n"\<close>;
  \<open>DoneMarker\<close> is the literal \<^verbatim>\<open>"data: [DONE]\n\n"\<close>, which is not a JSON frame.
\<close>

datatype frame = Data json | DoneMarker

definition delta_event :: "string \<Rightarrow> json" where
  "delta_event content_str = JObj [(''type'', JStr ''delta''), (''content'', JStr content_str)]"

definition tool_call_event :: "string \<Rightarrow> string \<Rightarrow> pydict \<Rightarrow> json" where
  "tool_call_event tool_call_id tool_name final_args =
     JObj [(''type'', JStr ''tool_call''), (''id'', JStr tool_call_id),
           (''name'', JStr tool_name), (''arguments'', JObj final_args)]"

definition tool_call_chunk_event :: "json \<Rightarrow> json \<Rightarrow> string \<Rightarrow> json" where
  "tool_call_chunk_event index tc_id args_chunk =
     JObj [(''type'', JStr ''tool_call_chunk''), (''index'', index),
           (''id'', tc_id), (''args'', JStr args_chunk)]"

definition tool_result_event :: "string \<Rightarrow> json \<Rightarrow> json" where
  "tool_result_event tool_call_id content =
     JObj [(''type'', JStr ''tool_result''), (''tool_call_id'', JStr tool_call_id),
           (''content'', content)]"

definition messages_event :: "json \<Rightarrow> json" where
  "messages_event oai_messages = JObj [(''type'', JStr ''messages''), (''messages'', oai_messages)]"

definition error_event :: "string \<Rightarrow> json" where
  "error_event err = JObj [(''type'', JStr ''error''), (''error'', JStr err)]"

definition driver_error_event :: "string \<Rightarrow> string \<Rightarrow> json" where
  "driver_error_event err tb =
     JObj [(''type'', JStr ''error''), (''error'', JStr err), (''traceback'', JStr tb)]"

text \<open>The \<^verbatim>\<open>"type"\<close> field of a frame; \<open>None\<close> for the terminal marker.\<close>

fun frame_type :: "frame \<Rightarrow> string option" where
  "frame_type (Data (JObj ((k, JStr t) # _))) = (if k = ''type'' then Some t else None)"
| "frame_type _ = None"


text \<open>The UTF-8 bytes of the two message prefixes of the per-unit error records.\<close>

definition chunk_error_prefix :: string where
  "chunk_error_prefix =
     [CHR 0xE5, CHR 0xA4, CHR 0x84, CHR 0xE7, CHR 0x90, CHR 0x86] @ ''chunk'' @
     [CHR 0xE6, CHR 0x97, CHR 0xB6, CHR 0xE5, CHR 0x87, CHR 0xBA, CHR 0xE9, CHR 0x94, CHR 0x99] @ '': ''"

definition message_error_prefix :: string where
  "message_error_prefix =
     [CHR 0xE5, CHR 0xA4, CHR 0x84, CHR 0xE7, CHR 0x90, CHR 0x86,
      CHR 0xE6, CHR 0xB6, CHR 0x88, CHR 0xE6, CHR 0x81, CHR 0xAF] @ ''chunk'' @
     [CHR 0xE6, CHR 0x97, CHR 0xB6, CHR 0xE5, CHR 0x87, CHR 0xBA, CHR 0xE9, CHR 0x94, CHR 0x99] @ '': ''"

section \<open>Inbound shapes\<close>

text \<open>
  The value found under \<^verbatim>\<open>"args"\<close> of a tool-call entry
  (\<^verbatim>\<open>tool_call.get("args", {})\<close>, or \<^verbatim>\<open>getattr(tool_call, "args", {})\<close> for an object):
  a mapping (the empty one when the key is absent), a falsy value that is not a mapping
  (\<^verbatim>\<open>None\<close>), or a truthy value that is not a mapping, on which \<^verbatim>\<open>dict.update\<close> raises an
  exception whose \<^verbatim>\<open>str\<close> is the given text.
\<close>

datatype tool_args = ArgsDict pydict | ArgsNone | ArgsBad string

text \<open>
  A tool-call entry: \<open>None\<close> for a field that is absent or \<^verbatim>\<open>None\<close>. The dict and the
  attribute access of the source read the same three fields.
\<close>

record tool_call =
  tc_id :: "string option"
  tc_name :: "string option"
  tc_args :: tool_args

text \<open>
  The fields read from an entry of \<^verbatim>\<open>tool_call_chunks\<close>: \<open>tcc_args = None\<close> when
  \<^verbatim>\<open>"args"\<close> is absent or \<^verbatim>\<open>None\<close>; \<open>tcc_index = None\<close> when the key \<^verbatim>\<open>"index"\<close> is
  absent (the source then uses 0); \<open>tcc_id = None\<close> when \<^verbatim>\<open>"id"\<close> is absent or \<^verbatim>\<open>None\<close>.
\<close>

record tcc_fields =
  tcc_args :: "string option"
  tcc_index :: "json option"
  tcc_id :: "string option"

text \<open>
  An entry of \<^verbatim>\<open>tool_call_chunks\<close>: a dict, an object with a \<^verbatim>\<open>dict()\<close> method returning
  these fields, or any other object, given by its \<^verbatim>\<open>str()\<close>.
\<close>

datatype tool_call_chunk = TccDict tcc_fields | TccModel tcc_fields | TccOther string

text \<open>
  A raw message chunk: a \<^verbatim>\<open>ToolMessage\<close> (tool_call_id, content), an \<^verbatim>\<open>AIMessageChunk\<close>
  (content, tool_calls, tool_call_chunks), or an object of any other class (named).
\<close>

datatype message =
    ToolMessage string json
  | AIMessageChunk json "tool_call list" "tool_call_chunk list"
  | OtherObject string

text \<open>
  The second element of a two-element tuple: a dict (with the value of its \<^verbatim>\<open>"messages"\<close>
  key, if any; \<open>'m\<close> is the class of the snapshot's messages), a list, a tuple (the shape
  LangGraph delivers: the message chunk and its metadata), or an object that is not
  iterable or is a \<^verbatim>\<open>str\<close> (named by its class).
\<close>

datatype 'm chunk_data =
    DDict "'m list option"
  | DList "message list"
  | DTuple "message list"
  | DObject string

text \<open>One inbound unit: a two-element tuple, a list, or anything else.\<close>

datatype 'm chunk =
    Pair2 string "'m chunk_data"
  | MessageList "message list"
  | Single message

section \<open>Processor state and library calls\<close>

text \<open>
  The fields of \<^verbatim>\<open>StreamProcessor\<close> that its methods read or write
  (\<^verbatim>\<open>session_id\<close>, \<^verbatim>\<open>current_content\<close> and \<^verbatim>\<open>current_tool_calls\<close> are never used).
\<close>

record processor =
  text_buffer :: string
  tool_call_args :: "(string \<times> pydict) list"
  recursion_limit :: int

definition StreamProcessor :: "int \<Rightarrow> processor" where
  "StreamProcessor limit = \<lparr>text_buffer = [], tool_call_args = [], recursion_limit = limit\<rparr>"

text \<open>An exception reaching the driver: its \<^verbatim>\<open>str\<close> and its formatted traceback.\<close>

record failure =
  err_str :: string
  err_traceback :: string

text \<open>
  The library functions the processor calls, as parameters: \<^verbatim>\<open>str\<close> on a content that is
  not a string, \<^verbatim>\<open>convert_to_openai_messages\<close> (which may raise), and the constructors of
  LangChain's \<^verbatim>\<open>HumanMessage\<close> and \<^verbatim>\<open>AIMessage\<close> (which validate their content and may raise).
\<close>

record ('m, 'l) library =
  py_str :: "json \<Rightarrow> string"
  convert_to_openai_messages :: "'m list \<Rightarrow> string + json"
  HumanMessage :: "json \<Rightarrow> failure + 'l"
  AIMessage :: "json \<Rightarrow> failure + 'l"

section \<open>The log buffer\<close>

text \<open>\<^verbatim>\<open>len\<close> of a Python string given by its UTF-8 bytes: the bytes that start a code point.\<close>

definition py_len :: "string \<Rightarrow> nat" where
  "py_len s = length (filter (\<lambda>c. \<not> (128 \<le> (of_char c :: nat) \<and> (of_char c :: nat) < 192)) s)"

fun contains :: "string \<Rightarrow> string \<Rightarrow> bool" where
  "contains p [] = (p = [])"
| "contains p (c # cs) = (prefix p (c # cs) \<or> contains p cs)"

definition punctuation :: "string list" where
  "punctuation =
     [[CHR 0xE3, CHR 0x80, CHR 0x82], [CHR 0xEF, CHR 0xBC, CHR 0x81], [CHR 0xEF, CHR 0xBC, CHR 0x9F],
      ''.'', ''!'', ''?'']"

text \<open>
  The buffer after \<^verbatim>\<open>self.text_buffer += content_str\<close> and the test that logs and empties it.
\<close>

definition log_text :: "string \<Rightarrow> string \<Rightarrow> string" where
  "log_text buf content_str =
     (let b = buf @ content_str in
      if CHR 0x0A \<in> set b \<or> (py_len b > 50 \<and> list_ex (\<lambda>p. contains p b) punctuation)
      then [] else b)"

section \<open>The argument accumulator\<close>

text \<open>\<^verbatim>\<open>d.update(other)\<close>: each item of \<open>other\<close>, in order, overwrites or is appended.\<close>

definition dict_update :: "pydict \<Rightarrow> pydict \<Rightarrow> pydict" where
  "dict_update d other = fold (\<lambda>(k, v). AList.update k v) other d"

text \<open>\<^verbatim>\<open>self.tool_call_args[tool_call_id]\<close> for a key that is present.\<close>

definition acc_get :: "(string \<times> pydict) list \<Rightarrow> string \<Rightarrow> pydict" where
  "acc_get acc k = (case map_of acc k of Some d \<Rightarrow> d | None \<Rightarrow> [])"

text \<open>Lines 246-247: create the entry if absent.\<close>

definition acc_ensure :: "(string \<times> pydict) list \<Rightarrow> string \<Rightarrow> (string \<times> pydict) list" where
  "acc_ensure acc k = (if k \<notin> fst ` set acc then AList.update k [] acc else acc)"

text \<open>Lines 250-251: merge a non-empty mapping into the entry, in place.\<close>

definition acc_merge :: "(string \<times> pydict) list \<Rightarrow> string \<Rightarrow> pydict \<Rightarrow> (string \<times> pydict) list" where
  "acc_merge acc k args =
     (if args \<noteq> [] then AList.update k (dict_update (acc_get acc k) args) acc else acc)"

text \<open>Lines 178-179: delete the entry if present.\<close>

definition acc_release :: "(string \<times> pydict) list \<Rightarrow> string \<Rightarrow> (string \<times> pydict) list" where
  "acc_release acc k = (if k \<in> fst ` set acc then AList.delete k acc else acc)"

section \<open>Translating one raw message chunk\<close>

text \<open>Python truthiness of an optional string.\<close>

fun truthy :: "string option \<Rightarrow> bool" where
  "truthy None = False"
| "truthy (Some s) = (s \<noteq> [])"

fun opt_str :: "string option \<Rightarrow> json" where
  "opt_str None = JNull"
| "opt_str (Some s) = JStr s"

text \<open>
  Lines 193-223: the text content of an \<^verbatim>\<open>AIMessageChunk\<close>. The result is the frames
  yielded and the new log buffer.
\<close>

definition handle_content :: "('m, 'l) library \<Rightarrow> string \<Rightarrow> json \<Rightarrow> frame list \<times> string" where
  "handle_content lib buf content =
     (if content \<noteq> JNull \<and> content \<noteq> JStr [] then
        (let content_str = (case content of JStr s \<Rightarrow> s | _ \<Rightarrow> py_str lib content) in
         if content_str \<noteq> [] then ([Data (delta_event content_str)], log_text buf content_str)
         else ([], buf))
      else ([], buf))"

text \<open>
  Lines 227-265: the loop over \<^verbatim>\<open>tool_calls\<close>. The result is the frames yielded, the
  accumulator, and the \<^verbatim>\<open>str\<close> of the exception that ended the loop, if one was raised.
\<close>

fun handle_tool_calls ::
  "(string \<times> pydict) list \<Rightarrow> tool_call list \<Rightarrow> frame list \<times> (string \<times> pydict) list \<times> string option"
where
  "handle_tool_calls acc [] = ([], acc, None)"
| "handle_tool_calls acc (tc # tcs) =
     (if \<not> truthy (tc_name tc) \<or> \<not> truthy (tc_id tc) then handle_tool_calls acc tcs
      else
        let tool_call_id = the (tc_id tc);
            tool_name = the (tc_name tc);
            acc1 = acc_ensure acc tool_call_id
        in case tc_args tc of
             ArgsBad e \<Rightarrow> ([], acc1, Some e)
           | a \<Rightarrow>
               let acc2 = (case a of ArgsDict d \<Rightarrow> acc_merge acc1 tool_call_id d | _ \<Rightarrow> acc1);
                   final_args = acc_get acc2 tool_call_id;
                   (fs, acc3, r) = handle_tool_calls acc2 tcs
               in (Data (tool_call_event tool_call_id tool_name final_args) # fs, acc3, r))"

text \<open>Lines 269-295: one entry of \<^verbatim>\<open>tool_call_chunks\<close>.\<close>

fun chunk_dict :: "tool_call_chunk \<Rightarrow> tcc_fields" where
  "chunk_dict (TccDict d) = d"
| "chunk_dict (TccModel d) = d"
| "chunk_dict (TccOther s) = \<lparr>tcc_args = Some s, tcc_index = None, tcc_id = None\<rparr>"

definition handle_tool_call_chunk :: "tool_call_chunk \<Rightarrow> frame list" where
  "handle_tool_call_chunk tool_call_chunk =
     (let d = chunk_dict tool_call_chunk;
          args_chunk = tcc_args d;
          index = (case tcc_index d of None \<Rightarrow> JInt 0 | Some i \<Rightarrow> i);
          tc_id = opt_str (tcc_id d)
      in if truthy args_chunk then [Data (tool_call_chunk_event index tc_id (the args_chunk))]
         else [])"

text \<open>
  The \<^verbatim>\<open>try\<close> body of \<^verbatim>\<open>_handle_message_chunk\<close>: the frames yielded, the processor after it,
  and the \<^verbatim>\<open>str\<close> of the exception that left the body, if any.
\<close>

fun handle_message_body ::
  "('m, 'l) library \<Rightarrow> processor \<Rightarrow> message \<Rightarrow> frame list \<times> processor \<times> string option"
where
  "handle_message_body lib p (ToolMessage tool_call_id content) =
     ([Data (tool_result_event tool_call_id content)],
      p\<lparr>tool_call_args := acc_release (tool_call_args p) tool_call_id\<rparr>, None)"
| "handle_message_body lib p (AIMessageChunk content tool_calls tool_call_chunks) =
     (let (fs1, buf) = handle_content lib (text_buffer p) content;
          (fs2, acc, r) = handle_tool_calls (tool_call_args p) tool_calls;
          p' = p\<lparr>text_buffer := buf, tool_call_args := acc\<rparr>
      in case r of
           Some e \<Rightarrow> (fs1 @ fs2, p', Some e)
         | None \<Rightarrow> (fs1 @ fs2 @ concat (map handle_tool_call_chunk tool_call_chunks), p', None))"
| "handle_message_body lib p (OtherObject _) = ([], p, None)"

text \<open>\<^verbatim>\<open>_handle_message_chunk\<close>: the body, and the \<^verbatim>\<open>except\<close> clause of lines 297-305.\<close>

definition handle_message_chunk ::
  "('m, 'l) library \<Rightarrow> processor \<Rightarrow> message \<Rightarrow> frame list \<times> processor"
where
  "handle_message_chunk lib p message_chunk =
     (case handle_message_body lib p message_chunk of
        (fs, p', None) \<Rightarrow> (fs, p')
      | (fs, p', Some e) \<Rightarrow> (fs @ [Data (error_event (message_error_prefix @ e))], p'))"

section \<open>Translating one inbound unit\<close>

text \<open>A \<^verbatim>\<open>for\<close> loop over messages, each handled by \<^verbatim>\<open>_handle_message_chunk\<close>.\<close>

fun handle_messages ::
  "('m, 'l) library \<Rightarrow> processor \<Rightarrow> message list \<Rightarrow> frame list \<times> processor"
where
  "handle_messages lib p [] = ([], p)"
| "handle_messages lib p (m # ms) =
     (let (fs, p1) = handle_message_chunk lib p m;
          (fs', p2) = handle_messages lib p1 ms
      in (fs @ fs', p2))"

text \<open>The text of the \<^verbatim>\<open>AttributeError\<close> raised by \<^verbatim>\<open>chunk_data.get\<close> on an object without it.\<close>

definition no_attribute_get :: "string \<Rightarrow> string" where
  "no_attribute_get cls =
     [CHR 0x27] @ cls @ [CHR 0x27] @ '' object has no attribute '' @ [CHR 0x27] @ ''get'' @ [CHR 0x27]"

text \<open>
  \<^verbatim>\<open>_handle_values_chunk\<close> (it has no handler of its own): the frames yielded and the \<^verbatim>\<open>str\<close>
  of the exception raised, if any.
\<close>

fun handle_values_chunk :: "('m, 'l) library \<Rightarrow> 'm chunk_data \<Rightarrow> frame list \<times> string option" where
  "handle_values_chunk lib (DDict ms) =
     (let all_messages = (case ms of None \<Rightarrow> [] | Some xs \<Rightarrow> xs) in
      if all_messages \<noteq> [] then
        (case convert_to_openai_messages lib all_messages of
           Inl e \<Rightarrow> ([], Some e)
         | Inr oai_messages \<Rightarrow> ([Data (messages_event oai_messages)], None))
      else ([], None))"
| "handle_values_chunk lib (DList _) = ([], Some (no_attribute_get ''list''))"
| "handle_values_chunk lib (DTuple _) = ([], Some (no_attribute_get ''tuple''))"
| "handle_values_chunk lib (DObject cls) = ([], Some (no_attribute_get cls))"

text \<open>
  The \<^verbatim>\<open>try\<close> body of \<^verbatim>\<open>_handle_chunk\<close>. A tag that is not a string is any tag other than
  \<^verbatim>\<open>"values"\<close>. Iterating a dict yields its keys, strings, which are no messages; an empty
  list is iterated zero times.
\<close>

fun handle_chunk_body ::
  "('m, 'l) library \<Rightarrow> processor \<Rightarrow> 'm chunk \<Rightarrow> frame list \<times> processor \<times> string option"
where
  "handle_chunk_body lib p (Pair2 chunk_type chunk_data) =
     (if chunk_type = ''values'' then
        (let (fs, r) = handle_values_chunk lib chunk_data in (fs, p, r))
      else
        (case chunk_data of
           DList ms \<Rightarrow> (let (fs, p') = handle_messages lib p ms in (fs, p', None))
         | DTuple ms \<Rightarrow> (let (fs, p') = handle_messages lib p ms in (fs, p', None))
         | DDict _ \<Rightarrow> ([], p, None)
         | DObject cls \<Rightarrow>
             (let (fs, p') = handle_message_chunk lib p (OtherObject cls) in (fs, p', None))))"
| "handle_chunk_body lib p (MessageList ms) =
     (if ms \<noteq> [] then (let (fs, p') = handle_messages lib p ms in (fs, p', None))
      else (let (fs, p') = handle_message_chunk lib p (OtherObject ''list'') in (fs, p', None)))"
| "handle_chunk_body lib p (Single m) =
     (let (fs, p') = handle_message_chunk lib p m in (fs, p', None))"

text \<open>\<^verbatim>\<open>_handle_chunk\<close>: the body, and the \<^verbatim>\<open>except\<close> clause of lines 145-153.\<close>

definition handle_chunk :: "('m, 'l) library \<Rightarrow> processor \<Rightarrow> 'm chunk \<Rightarrow> frame list \<times> processor" where
  "handle_chunk lib p chunk =
     (case handle_chunk_body lib p chunk of
        (fs, p', None) \<Rightarrow> (fs, p')
      | (fs, p', Some e) \<Rightarrow> (fs @ [Data (error_event (chunk_error_prefix @ e))], p'))"

section \<open>The stream driver\<close>

text \<open>The loop of lines 64-78 over the chunks the agent delivers.\<close>

fun run_chunks :: "('m, 'l) library \<Rightarrow> processor \<Rightarrow> 'm chunk list \<Rightarrow> frame list \<times> processor" where
  "run_chunks lib p [] = ([], p)"
| "run_chunks lib p (c # cs) =
     (let (fs, p1) = handle_chunk lib p c;
          (fs', p2) = run_chunks lib p1 cs
      in (fs @ fs', p2))"

text \<open>
  An input message, a dict: \<open>None\<close> for a key that is absent.
\<close>

record chat_message =
  msg_role :: "json option"
  msg_content :: "json option"

text \<open>Lines 52-57: the conversation passed to the agent; a constructor that raises ends it.\<close>

fun convert_messages :: "('m, 'l) library \<Rightarrow> chat_message list \<Rightarrow> failure + 'l list" where
  "convert_messages lib [] = Inr []"
| "convert_messages lib (msg # msgs) =
     (let c = (case msg_content msg of None \<Rightarrow> JStr [] | Some v \<Rightarrow> v) in
      if msg_role msg = Some (JStr ''user'') then
        (case HumanMessage lib c of
           Inl f \<Rightarrow> Inl f
         | Inr m \<Rightarrow> (case convert_messages lib msgs of Inl f \<Rightarrow> Inl f | Inr ms \<Rightarrow> Inr (m # ms)))
      else if msg_role msg = Some (JStr ''assistant'') then
        (case AIMessage lib c of
           Inl f \<Rightarrow> Inl f
         | Inr m \<Rightarrow> (case convert_messages lib msgs of Inl f \<Rightarrow> Inl f | Inr ms \<Rightarrow> Inr (m # ms)))
      else convert_messages lib msgs)"

text \<open>
  What \<^verbatim>\<open>agent.astream\<close> delivers for a conversation and a recursion limit: finitely many
  chunks, after which the source is exhausted or raises.
\<close>

record 'm event_source =
  emitted :: "'m chunk list"
  raised :: "failure option"

type_synonym ('m, 'l) agent = "'l list \<Rightarrow> int \<Rightarrow> 'm event_source"

definition driver_error_frame :: "failure \<Rightarrow> frame" where
  "driver_error_frame f = Data (driver_error_event (err_str f) (err_traceback f))"

text \<open>\<^verbatim>\<open>StreamProcessor.process_stream\<close>: all the strings it yields, in order.\<close>

definition process_stream ::
  "('m, 'l) library \<Rightarrow> processor \<Rightarrow> ('m, 'l) agent \<Rightarrow> chat_message list \<Rightarrow> frame list"
where
  "process_stream lib p agent messages =
     (case convert_messages lib messages of
        Inl f \<Rightarrow> [driver_error_frame f]
      | Inr langchain_messages \<Rightarrow>
          (let src = agent langchain_messages (recursion_limit p);
               (fs, p') = run_chunks lib p (emitted src)
           in case raised src of
                None \<Rightarrow> fs @ [DoneMarker]
              | Some f \<Rightarrow> fs @ [driver_error_frame f]))"

text \<open>The text of the \<^verbatim>\<open>RuntimeError\<close> of \<^verbatim>\<open>create_agent\<close>, in UTF-8.\<close>

definition missing_key_message :: string where
  "missing_key_message =
     [CHR 0xE6, CHR 0x9C, CHR 0xAA, CHR 0xE9, CHR 0x85, CHR 0x8D, CHR 0xE7, CHR 0xBD, CHR 0xAE] @
     '' OPENAI_API_KEY'' @ [CHR 0xE3, CHR 0x80, CHR 0x82, CHR 0xE8, CHR 0xAF, CHR 0xB7, CHR 0xE5, CHR 0x9C, CHR 0xA8] @
     '' backend/.env '' @ [CHR 0xE4, CHR 0xB8, CHR 0xAD, CHR 0xE8, CHR 0xAE, CHR 0xBE, CHR 0xE7, CHR 0xBD, CHR 0xAE,
       CHR 0xEF, CHR 0xBC, CHR 0x8C, CHR 0xE5, CHR 0x8F, CHR 0xAF, CHR 0xE5, CHR 0x8F, CHR 0x82, CHR 0xE8, CHR 0x80, CHR 0x83] @
     '' env.example'' @ [CHR 0xEF, CHR 0xBC, CHR 0x88] @ ''cp env.example .env'' @
     [CHR 0xEF, CHR 0xBC, CHR 0x89, CHR 0xE3, CHR 0x80, CHR 0x82]"

text \<open>
  \<^verbatim>\<open>create_agent\<close>: the check of the API key, then the library calls that build the agent
  (their outcome is \<open>built\<close>, with \<open>Inl\<close> the \<^verbatim>\<open>str\<close> of an exception).
\<close>

definition create_agent :: "string \<Rightarrow> string + 'a \<Rightarrow> string + 'a" where
  "create_agent api_key built = (if api_key = [] then Inl missing_key_message else built)"

text \<open>
  \<^verbatim>\<open>process_chat_stream\<close>. \<open>limit\<close> is the outcome of
  \<^verbatim>\<open>int(os.getenv("RECURSION_LIMIT", "200"))\<close> in the constructor of the processor.
\<close>

definition process_chat_stream ::
  "('m, 'l) library \<Rightarrow> string \<Rightarrow> string + ('m, 'l) agent \<Rightarrow> string + int \<Rightarrow> chat_message list \<Rightarrow> frame list"
where
  "process_chat_stream lib api_key built limit messages =
     (case create_agent api_key built of
        Inl e \<Rightarrow> [Data (error_event e), DoneMarker]
      | Inr agent \<Rightarrow>
          (case limit of
             Inl e \<Rightarrow> [Data (error_event e), DoneMarker]
           | Inr n \<Rightarrow> process_stream lib (StreamProcessor n) agent messages))"

section \<open>Example inputs\<close>

text \<open>A library whose calls all succeed, used where a property is evaluated on an example.\<close>

definition example_library :: "(json, json) library" where
  "example_library = \<lparr>py_str = (\<lambda>_. ''[]''), convert_to_openai_messages = (\<lambda>ms. Inr (JList ms)),
     HumanMessage = (\<lambda>c. Inr c), AIMessage = (\<lambda>c. Inr c)\<rparr>"

text \<open>
  An agent whose event source delivers one text chunk (in the shape LangGraph uses for the
  \<^verbatim>\<open>messages\<close> mode) and then raises.
\<close>

definition example_failing_agent :: "(json, json) agent" where
  "example_failing_agent langchain_messages limit =
     \<lparr>emitted = [Pair2 ''messages'' (DTuple [AIMessageChunk (JStr ''Hi'') [] [], OtherObject ''dict''])],
      raised = Some \<lparr>err_str = ''Recursion limit reached'', err_traceback = ''Traceback''\<rparr>\<rparr>"

text \<open>
  An agent delivering a text delta, a tool call, two argument fragments and the tool result,
  each as a unit of its own, after which the source is exhausted.
\<close>

definition example_agent :: "(json, json) agent" where
  "example_agent langchain_messages limit =
     \<lparr>emitted =
        [Single (AIMessageChunk (JStr ''Hi'') [] []),
         Single (AIMessageChunk (JStr [])
           [\<lparr>tc_id = Some ''c1'', tc_name = Some ''gen'', tc_args = ArgsDict []\<rparr>] []),
         Single (AIMessageChunk (JStr []) []
           [TccDict \<lparr>tcc_args = Some (''{'' @ [CHR 0x22] @ ''prompt'' @ [CHR 0x22]), tcc_index = Some (JInt 0), tcc_id = Some ''c1''\<rparr>]),
         Single (AIMessageChunk (JStr []) []
           [TccDict \<lparr>tcc_args = Some ('':'' @ [CHR 0x22] @ ''cat'' @ [CHR 0x22] @ ''}''), tcc_index = Some (JInt 0), tcc_id = Some ''c1''\<rparr>]),
         Single (ToolMessage ''c1'' (JStr ''ok''))],
      raised = None\<rparr>"

section \<open>The notions used in the statements\<close>

text \<open>
  The words of the claim on the input conversation: a message is forwarded when its role is
  exactly \<^verbatim>\<open>"user"\<close> or \<^verbatim>\<open>"assistant"\<close>; its content is the empty string when the key is
  absent; a forwarded message becomes a human message or an assistant message.
\<close>

definition forwarded :: "chat_message \<Rightarrow> bool" where
  "forwarded msg = (msg_role msg = Some (JStr ''user'') \<or> msg_role msg = Some (JStr ''assistant''))"

definition content_or_empty :: "chat_message \<Rightarrow> json" where
  "content_or_empty msg = (case msg_content msg of None \<Rightarrow> JStr [] | Some v \<Rightarrow> v)"

definition to_langchain :: "('m, 'l) library \<Rightarrow> chat_message \<Rightarrow> failure + 'l" where
  "to_langchain lib msg =
     (if msg_role msg = Some (JStr ''user'') then HumanMessage lib (content_or_empty msg)
      else AIMessage lib (content_or_empty msg))"

text \<open>
  What is read off a frame when the order of the output is stated: a field of its JSON
  object; its phase (text, tool call, argument fragment, anything else); and, for a
  \<^verbatim>\<open>tool_call\<close> record, the call id and the name it carries.
\<close>

fun field :: "string \<Rightarrow> frame \<Rightarrow> json option" where
  "field k (Data (JObj kvs)) = map_of kvs k"
| "field k _ = None"


definition tool_call_key :: "frame \<Rightarrow> (string \<times> string) option" where
  "tool_call_key f =
     (if frame_type f = Some ''tool_call'' then
        (case (field ''id'' f, field ''name'' f) of
           (Some (JStr i), Some (JStr n)) \<Rightarrow> Some (i, n)
         | _ \<Rightarrow> None)
      else None)"

text \<open>
  A tool-call entry that passes the check of line 241, the id and name it then has, and a
  list of entries none of which makes \<^verbatim>\<open>dict.update\<close> raise.
\<close>

definition valid_tool_call :: "tool_call \<Rightarrow> bool" where
  "valid_tool_call tc = (truthy (tc_name tc) \<and> truthy (tc_id tc))"

definition id_name :: "tool_call \<Rightarrow> string \<times> string" where
  "id_name tc = (the (tc_id tc), the (tc_name tc))"

fun is_bad :: "tool_args \<Rightarrow> bool" where
  "is_bad (ArgsBad _) = True"
| "is_bad _ = False"



section \<open>Properties of the accumulator\<close>

lemma map_of_dict_update: "map_of (dict_update d other) = map_of d ++ map_of (rev other)"
proof (induction other arbitrary: d)
  case Nil
  show ?case by (simp add: dict_update_def)
next
  case (Cons kv other)
  obtain k v where kv: "kv = (k, v)" by (cases kv)
  have "map_of (dict_update d (kv # other)) = map_of (dict_update (AList.update k v d) other)"
    by (simp add: dict_update_def kv)
  also have "\<dots> = map_of (AList.update k v d) ++ map_of (rev other)"
    by (rule Cons.IH)
  also have "\<dots> = map_of d ++ map_of (rev (kv # other))"
    by (simp add: update_conv' kv map_add_def fun_eq_iff split: option.splits)
  finally show ?case .
qed

lemma keys_dict_update: "fst ` set (dict_update d other) = fst ` set d \<union> fst ` set other"
proof (induction other arbitrary: d)
  case Nil
  show ?case by (simp add: dict_update_def)
next
  case (Cons kv other)
  obtain k v where kv: "kv = (k, v)" by (cases kv)
  have "dict_update d (kv # other) = dict_update (AList.update k v d) other"
    by (simp add: dict_update_def kv)
  then show ?case using Cons.IH [of "AList.update k v d"]
    by (auto simp: dom_update kv)
qed

lemma map_of_acc_ensure: "map_of (acc_ensure acc k) = (map_of acc)(k \<mapsto> acc_get acc k)"
proof (cases "k \<in> fst ` set acc")
  case True
  then obtain d where "map_of acc k = Some d"
    by (metis map_of_eq_None_iff not_Some_eq)
  then show ?thesis using True
    by (auto simp: acc_ensure_def acc_get_def fun_eq_iff)
next
  case False
  then have "map_of acc k = None" by (simp add: map_of_eq_None_iff)
  then show ?thesis using False
    by (simp add: acc_ensure_def acc_get_def update_conv')
qed

lemma acc_get_ensure: "acc_get (acc_ensure acc k) k = acc_get acc k"
  by (simp add: acc_get_def map_of_acc_ensure)

lemma map_of_acc_merge:
  "map_of (acc_merge acc k d) =
     (if d = [] then map_of acc else (map_of acc)(k \<mapsto> dict_update (acc_get acc k) d))"
  by (simp add: acc_merge_def update_conv')

lemma dict_update_Nil: "dict_update d [] = d"
  by (simp add: dict_update_def)




lemma handle_tool_calls_valid:
  assumes "i \<noteq> []" "n \<noteq> []"
  shows "handle_tool_calls acc (\<lparr>tc_id = Some i, tc_name = Some n, tc_args = ArgsDict d\<rparr> # tcs) =
     (let acc2 = acc_merge (acc_ensure acc i) i d;
          (fs, acc3, r) = handle_tool_calls acc2 tcs
      in (Data (tool_call_event i n (acc_get acc2 i)) # fs, acc3, r))"
  using assms by simp

lemma handle_tool_calls_invalid:
  "\<not> truthy (tc_name tc) \<or> \<not> truthy (tc_id tc) \<Longrightarrow>
   handle_tool_calls acc (tc # tcs) = handle_tool_calls acc tcs"
  by simp

lemma acc_get_update: "acc_get (AList.update k v acc) k = v"
  by (simp add: acc_get_def update_conv')

lemma acc_get_merge_ensure:
  "acc_get (acc_merge (acc_ensure acc i) i d) i = dict_update (acc_get acc i) d"
proof (cases "d = []")
  case True
  then show ?thesis by (simp add: acc_merge_def acc_get_ensure dict_update_Nil)
next
  case False
  then show ?thesis by (simp add: acc_merge_def acc_get_update acc_get_ensure)
qed

lemma map_of_merge_ensure:
  "map_of (acc_merge (acc_ensure acc i) i d) = (map_of acc)(i \<mapsto> dict_update (acc_get acc i) d)"
  by (cases "d = []")
     (simp_all add: map_of_acc_merge map_of_acc_ensure acc_get_ensure dict_update_Nil)

section \<open>Properties of the translation\<close>

text \<open>
  C3: a tool-call entry with non-empty id \<open>i\<close> and name \<open>n\<close> and a mapping \<open>d\<close> as
  arguments yields exactly one \<^verbatim>\<open>tool_call\<close> record, whose arguments are the entry of \<open>i\<close> in
  the accumulator (the empty mapping if there is none) updated key by key with \<open>d\<close>, later
  values replacing earlier ones; this mapping is the new entry of \<open>i\<close>, the other entries are
  unchanged, no key of the old entry is lost, an empty \<open>d\<close> changes nothing, and merging
  \<^verbatim>\<open>{a:1}\<close>, \<^verbatim>\<open>{b:2}\<close>, \<^verbatim>\<open>{a:1}\<close> gives \<^verbatim>\<open>{a:1, b:2}\<close>.
\<close>

theorem C3_tool_call_merge:
  assumes "i \<noteq> []" and "n \<noteq> []"
  shows "\<exists>acc'.
      handle_tool_calls acc [\<lparr>tc_id = Some i, tc_name = Some n, tc_args = ArgsDict d\<rparr>] =
        ([Data (tool_call_event i n (dict_update (acc_get acc i) d))], acc', None)
    \<and> map_of acc' i = Some (dict_update (acc_get acc i) d)
    \<and> (\<forall>j. j \<noteq> i \<longrightarrow> map_of acc' j = map_of acc j)
    \<and> map_of (dict_update (acc_get acc i) d) = map_of (acc_get acc i) ++ map_of (rev d)
    \<and> fst ` set (acc_get acc i) \<subseteq> fst ` set (dict_update (acc_get acc i) d)
    \<and> dict_update (acc_get acc i) [] = acc_get acc i
    \<and> dict_update (dict_update (dict_update [] [(''a'', JInt 1)]) [(''b'', JInt 2)]) [(''a'', JInt 1)]
        = [(''a'', JInt 1), (''b'', JInt 2)]"
proof -
  let ?acc' = "acc_merge (acc_ensure acc i) i d"
  have run: "handle_tool_calls acc [\<lparr>tc_id = Some i, tc_name = Some n, tc_args = ArgsDict d\<rparr>] =
        ([Data (tool_call_event i n (dict_update (acc_get acc i) d))], ?acc', None)"
    using assms by (simp add: acc_get_merge_ensure)
  have ex: "dict_update (dict_update (dict_update [] [(''a'', JInt 1)]) [(''b'', JInt 2)]) [(''a'', JInt 1)]
        = [(''a'', JInt 1), (''b'', JInt 2)]"
    by (simp add: dict_update_def)
  show ?thesis
    apply (rule exI [of _ ?acc'])
    using run ex
    by (simp add: map_of_merge_ensure map_of_dict_update keys_dict_update dict_update_Nil)
qed

theorem C3_tool_call_merge_witness:
  "fst (handle_tool_calls [(''c1'', [(''a'', JInt 1)])]
      [\<lparr>tc_id = Some ''c1'', tc_name = Some ''gen'', tc_args = ArgsDict [(''b'', JInt 2)]\<rparr>])
   = [Data (tool_call_event ''c1'' ''gen'' [(''a'', JInt 1), (''b'', JInt 2)])]"
proof -
  have h: "''c1'' \<noteq> []" "''gen'' \<noteq> []" by simp_all
  from C3_tool_call_merge [OF h, of "[(''c1'', [(''a'', JInt 1)])]" "[(''b'', JInt 2)]"]
  obtain acc' where
    "handle_tool_calls [(''c1'', [(''a'', JInt 1)])]
       [\<lparr>tc_id = Some ''c1'', tc_name = Some ''gen'', tc_args = ArgsDict [(''b'', JInt 2)]\<rparr>] =
     ([Data (tool_call_event ''c1'' ''gen''
         (dict_update (acc_get [(''c1'', [(''a'', JInt 1)])] ''c1'') [(''b'', JInt 2)]))], acc', None)"
    by blast
  then show ?thesis by (simp add: acc_get_def dict_update_def)
qed



lemma handle_tool_calls_skip:
  "\<not> truthy (tc_name tc) \<or> \<not> truthy (tc_id tc) \<Longrightarrow>
   handle_tool_calls acc (xs @ tc # ys) = handle_tool_calls acc (xs @ ys)"
proof (induction xs arbitrary: acc)
  case Nil
  then show ?case by simp
next
  case (Cons x xs)
  show ?case
  proof (cases "\<not> truthy (tc_name x) \<or> \<not> truthy (tc_id x)")
    case True
    then show ?thesis using Cons.IH [OF Cons.prems] by simp
  next
    case False
    then show ?thesis using Cons.IH [OF Cons.prems]
      by (cases "tc_args x") (simp_all add: Let_def)
  qed
qed

text \<open>
  C5: a tool-call entry whose id or name is absent, \<^verbatim>\<open>None\<close> or empty yields no record, no
  error record, and leaves the accumulator as it was; the entries before and after it in the
  same chunk are processed as if it were not there.
\<close>

theorem C5_invalid_tool_call_skipped:
  assumes "tc_id tc = None \<or> tc_id tc = Some [] \<or> tc_name tc = None \<or> tc_name tc = Some []"
  shows "handle_tool_calls acc [tc] = ([], acc, None)
       \<and> handle_tool_calls acc (xs @ tc # ys) = handle_tool_calls acc (xs @ ys)
       \<and> handle_message_chunk lib p (AIMessageChunk c (xs @ tc # ys) tccs) =
           handle_message_chunk lib p (AIMessageChunk c (xs @ ys) tccs)
       \<and> handle_message_chunk lib p (AIMessageChunk JNull [tc] []) = ([], p)"
proof -
  from assms have inv: "\<not> truthy (tc_name tc) \<or> \<not> truthy (tc_id tc)" by auto
  have one: "handle_tool_calls acc [tc] = ([], acc, None)" for acc
    using inv by simp
  have skip: "handle_tool_calls acc (xs @ tc # ys) = handle_tool_calls acc (xs @ ys)" for acc
    using inv by (rule handle_tool_calls_skip)
  have msg: "handle_message_chunk lib p (AIMessageChunk c (xs @ tc # ys) tccs) =
           handle_message_chunk lib p (AIMessageChunk c (xs @ ys) tccs)"
    by (simp add: handle_message_chunk_def skip)
  have alone: "handle_message_chunk lib p (AIMessageChunk JNull [tc] []) = ([], p)"
    unfolding handle_message_chunk_def handle_message_body.simps one handle_content_def
    by simp
  show ?thesis using one skip msg alone by simp
qed

theorem C5_invalid_tool_call_skipped_witness:
  "handle_tool_calls [(''c0'', [(''a'', JInt 1)])]
     [\<lparr>tc_id = Some ''c1'', tc_name = None, tc_args = ArgsDict [(''b'', JInt 2)]\<rparr>] =
     ([], [(''c0'', [(''a'', JInt 1)])], None)
   \<and> handle_tool_calls []
       [\<lparr>tc_id = Some ''c1'', tc_name = None, tc_args = ArgsDict [(''b'', JInt 2)]\<rparr>,
        \<lparr>tc_id = Some ''c2'', tc_name = Some ''gen'', tc_args = ArgsDict []\<rparr>] =
     ([Data (tool_call_event ''c2'' ''gen'' [])], [(''c2'', [])], None)"
proof -
  let ?tc = "\<lparr>tc_id = Some ''c1'', tc_name = None, tc_args = ArgsDict [(''b'', JInt 2)]\<rparr>"
  have h: "tc_id ?tc = None \<or> tc_id ?tc = Some [] \<or> tc_name ?tc = None \<or> tc_name ?tc = Some []"
    by simp
  from C5_invalid_tool_call_skipped [OF h, of "[(''c0'', [(''a'', JInt 1)])]"]
  have a: "handle_tool_calls [(''c0'', [(''a'', JInt 1)])] [?tc] = ([], [(''c0'', [(''a'', JInt 1)])], None)"
    by blast
  from C5_invalid_tool_call_skipped [OF h, of "[]" "[]" "[\<lparr>tc_id = Some ''c2'', tc_name = Some ''gen'', tc_args = ArgsDict []\<rparr>]"]
  have b: "handle_tool_calls [] ([] @ ?tc # [\<lparr>tc_id = Some ''c2'', tc_name = Some ''gen'', tc_args = ArgsDict []\<rparr>])
     = handle_tool_calls [] ([] @ [\<lparr>tc_id = Some ''c2'', tc_name = Some ''gen'', tc_args = ArgsDict []\<rparr>])"
    by blast
  have c: "handle_tool_calls [] [\<lparr>tc_id = Some ''c2'', tc_name = Some ''gen'', tc_args = ArgsDict []\<rparr>] =
     ([Data (tool_call_event ''c2'' ''gen'' [])], [(''c2'', [])], None)"
    by (simp add: acc_ensure_def acc_merge_def acc_get_def Let_def)
  show ?thesis using a b c by simp
qed

text \<open>
  C7: an argument fragment yields one \<^verbatim>\<open>tool_call_chunk\<close> record with its index, id and
  payload if the payload is non-empty, and nothing otherwise; the fragments of a chunk never
  change the accumulator.
\<close>

theorem C7_fragment_no_accumulator:
  "handle_tool_call_chunk (TccDict \<lparr>tcc_args = Some s, tcc_index = Some (JInt k), tcc_id = Some i\<rparr>) =
     (if s \<noteq> [] then [Data (tool_call_chunk_event (JInt k) (JStr i) s)] else [])
   \<and> handle_tool_call_chunk (TccDict \<lparr>tcc_args = None, tcc_index = ix, tcc_id = oi\<rparr>) = []
   \<and> handle_message_chunk lib p (AIMessageChunk JNull [] tccs) =
       (concat (map handle_tool_call_chunk tccs), p)
   \<and> tool_call_args (snd (handle_message_chunk lib p (AIMessageChunk c tcs tccs))) =
       tool_call_args (snd (handle_message_chunk lib p (AIMessageChunk c tcs [])))"
proof -
  have a: "handle_message_chunk lib p (AIMessageChunk JNull [] tccs) =
       (concat (map handle_tool_call_chunk tccs), p)"
    by (simp add: handle_message_chunk_def handle_content_def)
  have b: "tool_call_args (snd (handle_message_chunk lib p (AIMessageChunk c tcs tccs))) =
       tool_call_args (snd (handle_message_chunk lib p (AIMessageChunk c tcs [])))"
    by (simp add: handle_message_chunk_def Let_def split: prod.splits option.splits)
  show ?thesis using a b
    by (simp add: handle_tool_call_chunk_def)
qed

theorem C7_fragment_no_accumulator_witness:
  "handle_tool_call_chunk (TccDict \<lparr>tcc_args = Some ''{'', tcc_index = Some (JInt 0), tcc_id = Some ''c1''\<rparr>) =
     [Data (tool_call_chunk_event (JInt 0) (JStr ''c1'') ''{'')]
   \<and> handle_message_chunk example_library
        \<lparr>text_buffer = [], tool_call_args = [(''c1'', [])], recursion_limit = 200\<rparr>
        (AIMessageChunk JNull []
          [TccDict \<lparr>tcc_args = Some ''{'', tcc_index = Some (JInt 0), tcc_id = Some ''c1''\<rparr>,
           TccDict \<lparr>tcc_args = Some [], tcc_index = Some (JInt 0), tcc_id = Some ''c1''\<rparr>]) =
       ([Data (tool_call_chunk_event (JInt 0) (JStr ''c1'') ''{'')],
        \<lparr>text_buffer = [], tool_call_args = [(''c1'', [])], recursion_limit = 200\<rparr>)"
  using C7_fragment_no_accumulator [of "''{''" 0 "''c1''" None None example_library
      "\<lparr>text_buffer = [], tool_call_args = [(''c1'', [])], recursion_limit = 200\<rparr>"
      "[TccDict \<lparr>tcc_args = Some ''{'', tcc_index = Some (JInt 0), tcc_id = Some ''c1''\<rparr>,
        TccDict \<lparr>tcc_args = Some [], tcc_index = Some (JInt 0), tcc_id = Some ''c1''\<rparr>]" JNull "[]"]
  by (simp add: handle_tool_call_chunk_def)

text \<open>
  C9: a text content yields exactly one \<^verbatim>\<open>delta\<close> record carrying it when it is non-empty,
  and no record when it is empty or \<^verbatim>\<open>None\<close>; the records and the accumulator do not
  depend on the log buffer.
\<close>

theorem C9_text_delta:
  "handle_message_chunk lib p (AIMessageChunk (JStr s) [] []) =
     ((if s \<noteq> [] then [Data (delta_event s)] else []),
      p\<lparr>text_buffer := (if s \<noteq> [] then log_text (text_buffer p) s else text_buffer p)\<rparr>)
   \<and> handle_message_chunk lib p (AIMessageChunk JNull [] []) = ([], p)
   \<and> fst (handle_content lib buf (JStr s)) = (if s \<noteq> [] then [Data (delta_event s)] else [])
   \<and> fst (handle_message_chunk lib (p\<lparr>text_buffer := buf\<rparr>) m) = fst (handle_message_chunk lib p m)
   \<and> tool_call_args (snd (handle_message_chunk lib (p\<lparr>text_buffer := buf\<rparr>) m)) =
       tool_call_args (snd (handle_message_chunk lib p m))"
proof -
  have a: "handle_message_chunk lib p (AIMessageChunk (JStr s) [] []) =
     ((if s \<noteq> [] then [Data (delta_event s)] else []),
      p\<lparr>text_buffer := (if s \<noteq> [] then log_text (text_buffer p) s else text_buffer p)\<rparr>)"
    by (simp add: handle_message_chunk_def handle_content_def)
  have b: "handle_message_chunk lib p (AIMessageChunk JNull [] []) = ([], p)"
    by (simp add: handle_message_chunk_def handle_content_def)
  have c: "fst (handle_content lib buf (JStr s)) = (if s \<noteq> [] then [Data (delta_event s)] else [])"
    by (simp add: handle_content_def)
  have fr: "fst (handle_content lib b1 x) = fst (handle_content lib b2 x)" for b1 b2 x
    by (simp add: handle_content_def Let_def)
  have d: "fst (handle_message_chunk lib (p\<lparr>text_buffer := buf\<rparr>) m) = fst (handle_message_chunk lib p m)
     \<and> tool_call_args (snd (handle_message_chunk lib (p\<lparr>text_buffer := buf\<rparr>) m)) =
       tool_call_args (snd (handle_message_chunk lib p m))"
  proof (cases m)
    case (ToolMessage x c)
    then show ?thesis by (simp add: handle_message_chunk_def)
  next
    case (AIMessageChunk c tcs tccs)
    obtain f1 b1 where h1: "handle_content lib buf c = (f1, b1)" by (cases "handle_content lib buf c")
    obtain f2 b2 where h2: "handle_content lib (text_buffer p) c = (f2, b2)"
      by (cases "handle_content lib (text_buffer p) c")
    from fr [of buf c "text_buffer p"] h1 h2 have "f1 = f2" by simp
    then show ?thesis using AIMessageChunk h1 h2
      by (simp add: handle_message_chunk_def Let_def split: prod.splits option.splits)
  next
    case (OtherObject x)
    then show ?thesis by (simp add: handle_message_chunk_def)
  qed
  show ?thesis using a b c d by simp
qed

theorem C9_text_delta_witness:
  "handle_message_chunk example_library (StreamProcessor 200) (AIMessageChunk (JStr ''Hi'') [] []) =
     ([Data (delta_event ''Hi'')], \<lparr>text_buffer = ''Hi'', tool_call_args = [], recursion_limit = 200\<rparr>)
   \<and> fst (handle_message_chunk example_library
            \<lparr>text_buffer = ''x'', tool_call_args = [], recursion_limit = 200\<rparr>
            (AIMessageChunk (JStr []) [] [])) = []"
  using C9_text_delta [of example_library "StreamProcessor 200" "''Hi''" "''x''" "AIMessageChunk (JStr []) [] []"]
    C9_text_delta [of example_library "StreamProcessor 200" "[]" "''x''" "AIMessageChunk (JStr []) [] []"]
  by (simp add: StreamProcessor_def log_text_def py_len_def)

section \<open>Snapshots\<close>

text \<open>
  C8, as stated, fails on a snapshot whose message sequence is empty: the guard
  \<^verbatim>\<open>if all_messages:\<close> yields no record at all.
\<close>

theorem C8_empty_snapshot_counterexample:
  "fst (handle_chunk example_library (StreamProcessor 200) (Pair2 ''values'' (DDict (Some [])))) = []"
  by (simp add: handle_chunk_def)

text \<open>
  C8, amended: a two-element tuple tagged \<^verbatim>\<open>"values"\<close> whose snapshot has a non-empty message
  sequence, on which \<^verbatim>\<open>convert_to_openai_messages\<close> returns, yields exactly one \<^verbatim>\<open>messages\<close>
  record carrying the converted sequence; an empty or absent sequence yields no record.
\<close>

theorem C8_snapshot_record:
  "(ms \<noteq> [] \<and> convert_to_openai_messages lib ms = Inr j \<longrightarrow>
      handle_chunk lib p (Pair2 ''values'' (DDict (Some ms))) = ([Data (messages_event j)], p))
   \<and> handle_chunk lib p (Pair2 ''values'' (DDict (Some []))) = ([], p)
   \<and> handle_chunk lib p (Pair2 ''values'' (DDict None)) = ([], p)"
  by (simp add: handle_chunk_def)

theorem C8_snapshot_record_witness:
  "handle_chunk example_library (StreamProcessor 200)
     (Pair2 ''values'' (DDict (Some [JObj [(''role'', JStr ''user''), (''content'', JStr ''hi'')]]))) =
   ([Data (messages_event (JList [JObj [(''role'', JStr ''user''), (''content'', JStr ''hi'')]]))],
    StreamProcessor 200)"
  using C8_snapshot_record [of "[JObj [(''role'', JStr ''user''), (''content'', JStr ''hi'')]]"
      example_library "JList [JObj [(''role'', JStr ''user''), (''content'', JStr ''hi'')]]" "StreamProcessor 200"]
  by (simp add: example_library_def)

section \<open>The conversation passed to the agent\<close>

lemma convert_messages_Cons_forwarded:
  "forwarded m \<Longrightarrow>
   convert_messages lib (m # ms) =
     (case to_langchain lib m of
        Inl f \<Rightarrow> Inl f
      | Inr l \<Rightarrow> (case convert_messages lib ms of Inl f \<Rightarrow> Inl f | Inr ls \<Rightarrow> Inr (l # ls)))"
  by (auto simp: forwarded_def to_langchain_def content_or_empty_def)

lemma convert_messages_Cons_dropped:
  "\<not> forwarded m \<Longrightarrow> convert_messages lib (m # ms) = convert_messages lib ms"
  by (simp add: forwarded_def)

lemma convert_messages_filter:
  "convert_messages lib msgs = convert_messages lib (filter forwarded msgs)"
proof (induction msgs)
  case Nil
  show ?case by simp
next
  case (Cons m ms)
  show ?case
  proof (cases "forwarded m")
    case True
    then show ?thesis
      by (simp del: convert_messages.simps add: convert_messages_Cons_forwarded Cons.IH [symmetric]
          cong: sum.case_cong)
  next
    case False
    then show ?thesis
      by (simp del: convert_messages.simps add: convert_messages_Cons_dropped Cons.IH [symmetric])
  qed
qed

lemma convert_messages_forwarded:
  "\<forall>m \<in> set msgs. forwarded m \<and> (\<exists>l. to_langchain lib m = Inr l) \<Longrightarrow>
   convert_messages lib msgs = Inr (map (\<lambda>m. projr (to_langchain lib m)) msgs)"
proof (induction msgs)
  case Nil
  show ?case by simp
next
  case (Cons m ms)
  then obtain l where l: "to_langchain lib m = Inr l" and f: "forwarded m" by auto
  from Cons have ih: "convert_messages lib ms = Inr (map (\<lambda>m. projr (to_langchain lib m)) ms)"
    by simp
  show ?case
  proof (cases "msg_role m = Some (JStr ''user'')")
    case True
    then show ?thesis using l ih by (simp add: to_langchain_def content_or_empty_def)
  next
    case False
    with f have "msg_role m = Some (JStr ''assistant'')" by (simp add: forwarded_def)
    then show ?thesis using l ih False by (simp add: to_langchain_def content_or_empty_def)
  qed
qed

text \<open>
  C10: the conversation built for the agent is the one built from the forwarded messages
  alone, in order: messages with any other role have no effect on it; when every
  constructor returns, it is the list of the constructed messages, and it is what the agent
  is called with.
\<close>

theorem C10_only_user_and_assistant_forwarded:
  "convert_messages lib msgs = convert_messages lib (filter forwarded msgs)
   \<and> ((\<forall>m \<in> set (filter forwarded msgs). \<exists>l. to_langchain lib m = Inr l) \<longrightarrow>
        convert_messages lib msgs = Inr (map (\<lambda>m. projr (to_langchain lib m)) (filter forwarded msgs)))
   \<and> (convert_messages lib msgs = Inr ls \<longrightarrow>
        process_stream lib p agent msgs =
          fst (run_chunks lib p (emitted (agent ls (recursion_limit p)))) @
          [case raised (agent ls (recursion_limit p)) of None \<Rightarrow> DoneMarker
           | Some f \<Rightarrow> driver_error_frame f])"
proof -
  have a: "convert_messages lib msgs = convert_messages lib (filter forwarded msgs)"
    by (rule convert_messages_filter)
  have b: "(\<forall>m \<in> set (filter forwarded msgs). \<exists>l. to_langchain lib m = Inr l) \<longrightarrow>
        convert_messages lib msgs = Inr (map (\<lambda>m. projr (to_langchain lib m)) (filter forwarded msgs))"
    using convert_messages_forwarded [of "filter forwarded msgs" lib] a by simp
  have c: "convert_messages lib msgs = Inr ls \<longrightarrow>
        process_stream lib p agent msgs =
          fst (run_chunks lib p (emitted (agent ls (recursion_limit p)))) @
          [case raised (agent ls (recursion_limit p)) of None \<Rightarrow> DoneMarker
           | Some f \<Rightarrow> driver_error_frame f]"
    by (simp add: process_stream_def Let_def split: prod.splits option.splits)
  show ?thesis using a b c by blast
qed

theorem C10_only_user_and_assistant_forwarded_witness:
  "convert_messages example_library
     [\<lparr>msg_role = Some (JStr ''user''), msg_content = Some (JStr ''draw a cat'')\<rparr>,
      \<lparr>msg_role = Some (JStr ''tool''), msg_content = Some (JStr ''{}'')\<rparr>,
      \<lparr>msg_role = Some (JStr ''assistant''), msg_content = None\<rparr>,
      \<lparr>msg_role = Some (JStr ''system''), msg_content = Some (JStr ''x'')\<rparr>] =
   Inr [JStr ''draw a cat'', JStr []]"
  using C10_only_user_and_assistant_forwarded [of example_library
     "[\<lparr>msg_role = Some (JStr ''user''), msg_content = Some (JStr ''draw a cat'')\<rparr>,
       \<lparr>msg_role = Some (JStr ''tool''), msg_content = Some (JStr ''{}'')\<rparr>,
       \<lparr>msg_role = Some (JStr ''assistant''), msg_content = None\<rparr>,
       \<lparr>msg_role = Some (JStr ''system''), msg_content = Some (JStr ''x'')\<rparr>]"]
  by (simp add: forwarded_def to_langchain_def content_or_empty_def example_library_def)

section \<open>The end of the stream\<close>

text \<open>
  C1 on the failure path of \<^verbatim>\<open>process_stream\<close>: when the agent's event source raises, the
  stream ends with the error record and no terminal marker follows.
\<close>

theorem C1_agent_failure_no_terminal_marker:
  "process_chat_stream example_library ''sk-key'' (Inr example_failing_agent) (Inr 200)
     [\<lparr>msg_role = Some (JStr ''user''), msg_content = Some (JStr ''hi'')\<rparr>] =
   [Data (delta_event ''Hi''),
    Data (driver_error_event ''Recursion limit reached'' ''Traceback'')]"
  by (simp add: process_chat_stream_def create_agent_def process_stream_def example_library_def
      example_failing_agent_def StreamProcessor_def handle_chunk_def handle_message_chunk_def
      handle_content_def driver_error_frame_def Let_def)

section \<open>The order of the output\<close>

lemma frame_type_events [simp]:
  "frame_type (Data (delta_event s)) = Some ''delta''"
  "frame_type (Data (tool_call_event i n a)) = Some ''tool_call''"
  "frame_type (Data (tool_call_chunk_event ix oi s)) = Some ''tool_call_chunk''"
  "frame_type (Data (tool_result_event i c)) = Some ''tool_result''"
  "frame_type (Data (messages_event j)) = Some ''messages''"
  "frame_type (Data (error_event e)) = Some ''error''"
  "frame_type (Data (driver_error_event e tb)) = Some ''error''"
  "frame_type DoneMarker = None"
  by (simp_all add: delta_event_def tool_call_event_def tool_call_chunk_event_def
      tool_result_event_def messages_event_def error_event_def driver_error_event_def)

lemma tool_call_key_event [simp]: "tool_call_key (Data (tool_call_event i n a)) = Some (i, n)"
  by (simp add: tool_call_key_def) (simp add: tool_call_event_def)


lemma htc_Cons_invalid:
  "\<not> valid_tool_call tc \<Longrightarrow> handle_tool_calls acc (tc # tcs) = handle_tool_calls acc tcs"
  by (simp add: valid_tool_call_def)

lemma htc_Cons_bad:
  "valid_tool_call tc \<Longrightarrow> is_bad (tc_args tc) \<Longrightarrow>
   \<exists>acc1 e. handle_tool_calls acc (tc # tcs) = ([], acc1, Some e)"
  by (cases "tc_args tc") (simp_all add: valid_tool_call_def Let_def)

lemma htc_Cons_ok:
  assumes "valid_tool_call tc" and "\<not> is_bad (tc_args tc)"
  shows "\<exists>acc2 a. handle_tool_calls acc (tc # tcs) =
     (Data (tool_call_event (fst (id_name tc)) (snd (id_name tc)) a) # fst (handle_tool_calls acc2 tcs),
      snd (handle_tool_calls acc2 tcs))"
proof (cases "tc_args tc")
  case (ArgsDict d)
  let ?acc2 = "acc_merge (acc_ensure acc (the (tc_id tc))) (the (tc_id tc)) d"
  have "handle_tool_calls acc (tc # tcs) =
     (Data (tool_call_event (fst (id_name tc)) (snd (id_name tc)) (acc_get ?acc2 (the (tc_id tc))))
        # fst (handle_tool_calls ?acc2 tcs),
      snd (handle_tool_calls ?acc2 tcs))"
    using assms ArgsDict
    by (simp add: valid_tool_call_def id_name_def Let_def split: prod.splits)
  then show ?thesis by blast
next
  case ArgsNone
  let ?acc2 = "acc_ensure acc (the (tc_id tc))"
  have "handle_tool_calls acc (tc # tcs) =
     (Data (tool_call_event (fst (id_name tc)) (snd (id_name tc)) (acc_get ?acc2 (the (tc_id tc))))
        # fst (handle_tool_calls ?acc2 tcs),
      snd (handle_tool_calls ?acc2 tcs))"
    using assms ArgsNone
    by (simp add: valid_tool_call_def id_name_def Let_def split: prod.splits)
  then show ?thesis by blast
next
  case (ArgsBad e)
  with assms show ?thesis by simp
qed

lemma htc_types:
  "f \<in> set (fst (handle_tool_calls acc tcs)) \<Longrightarrow> frame_type f = Some ''tool_call''"
proof (induction tcs arbitrary: acc)
  case Nil
  then show ?case by simp
next
  case (Cons tc tcs)
  show ?case
  proof (cases "valid_tool_call tc")
    case False
    then have "handle_tool_calls acc (tc # tcs) = handle_tool_calls acc tcs"
      by (rule htc_Cons_invalid)
    with Cons.prems Cons.IH [of acc] show ?thesis by (simp del: handle_tool_calls.simps)
  next
    case True
    show ?thesis
    proof (cases "is_bad (tc_args tc)")
      case True
      with \<open>valid_tool_call tc\<close> htc_Cons_bad [of tc acc tcs] Cons.prems show ?thesis
        by (auto simp del: handle_tool_calls.simps)
    next
      case False
      with \<open>valid_tool_call tc\<close> htc_Cons_ok [of tc acc tcs] obtain acc2 a where
        "handle_tool_calls acc (tc # tcs) =
          (Data (tool_call_event (fst (id_name tc)) (snd (id_name tc)) a) # fst (handle_tool_calls acc2 tcs),
           snd (handle_tool_calls acc2 tcs))" by blast
      with Cons.prems Cons.IH [of acc2] show ?thesis by (auto simp del: handle_tool_calls.simps)
    qed
  qed
qed



lemma handle_content_frames:
  "fst (handle_content lib buf c) = [] \<or> (\<exists>s. fst (handle_content lib buf c) = [Data (delta_event s)])"
  by (auto simp: handle_content_def Let_def)

lemma handle_tool_call_chunk_type:
  "f \<in> set (handle_tool_call_chunk t) \<Longrightarrow> frame_type f = Some ''tool_call_chunk''"
  by (auto simp: handle_tool_call_chunk_def Let_def split: if_splits)

lemma chunk_frames_type:
  "f \<in> set (concat (map handle_tool_call_chunk tccs)) \<Longrightarrow> frame_type f = Some ''tool_call_chunk''"
  by (auto dest: handle_tool_call_chunk_type)










lemma content_type: "x \<in> set (fst (handle_content lib buf c)) \<Longrightarrow> frame_type x = Some ''delta''"
  using handle_content_frames [of lib buf c] by auto













text \<open>The scenario of the specification, run through the driver.\<close>

lemma scenario_example:
  "process_stream example_library (StreamProcessor 200) example_agent
     [\<lparr>msg_role = Some (JStr ''user''), msg_content = Some (JStr ''draw a cat'')\<rparr>] =
   [Data (delta_event ''Hi''),
    Data (tool_call_event ''c1'' ''gen'' []),
    Data (tool_call_chunk_event (JInt 0) (JStr ''c1'') (''{'' @ [CHR 0x22] @ ''prompt'' @ [CHR 0x22])),
    Data (tool_call_chunk_event (JInt 0) (JStr ''c1'') ('':'' @ [CHR 0x22] @ ''cat'' @ [CHR 0x22] @ ''}'')),
    Data (tool_result_event ''c1'' (JStr ''ok'')),
    DoneMarker]"
  by (simp add: process_stream_def example_library_def example_agent_def StreamProcessor_def
      handle_chunk_def handle_message_chunk_def handle_content_def Let_def
      acc_ensure_def acc_merge_def acc_get_def acc_release_def handle_tool_call_chunk_def)

section \<open>Exceptions inside one unit\<close>

lemma body_types:
  assumes "f \<in> set (fst (handle_message_body lib p m))"
  shows "frame_type f \<in> {Some ''tool_result'', Some ''delta'', Some ''tool_call'', Some ''tool_call_chunk''}"
proof (cases m)
  case (ToolMessage x c)
  with assms show ?thesis by simp
next
  case (AIMessageChunk c tcs tccs)
  with assms have "f \<in> set (fst (handle_content lib (text_buffer p) c))
      \<or> f \<in> set (fst (handle_tool_calls (tool_call_args p) tcs))
      \<or> f \<in> set (concat (map handle_tool_call_chunk tccs))"
    by (auto simp: Let_def split: prod.splits option.splits)
  then consider "f \<in> set (fst (handle_content lib (text_buffer p) c))"
    | "f \<in> set (fst (handle_tool_calls (tool_call_args p) tcs))"
    | "f \<in> set (concat (map handle_tool_call_chunk tccs))" by blast
  then show ?thesis
  proof cases
    case 1
    then show ?thesis by (simp add: content_type)
  next
    case 2
    then show ?thesis by (simp add: htc_types)
  next
    case 3
    then show ?thesis by (simp add: chunk_frames_type)
  qed
next
  case (OtherObject x)
  with assms show ?thesis by simp
qed


lemma message_typed:
  assumes "f \<in> set (fst (handle_message_chunk lib p m))"
  shows "frame_type f \<noteq> None"
proof -
  obtain fs p' r where b: "handle_message_body lib p m = (fs, p', r)"
    by (cases "handle_message_body lib p m")
  have "g \<in> set fs \<Longrightarrow> frame_type g \<noteq> None" for g
    using body_types [of g lib p m] b by auto
  then show ?thesis using assms b
    by (cases r) (auto simp: handle_message_chunk_def)
qed

lemma messages_typed:
  "f \<in> set (fst (handle_messages lib p ms)) \<Longrightarrow> frame_type f \<noteq> None"
proof (induction ms arbitrary: p)
  case Nil
  then show ?case by simp
next
  case (Cons m ms)
  obtain fs p1 where h: "handle_message_chunk lib p m = (fs, p1)"
    by (cases "handle_message_chunk lib p m")
  from Cons.prems h have "f \<in> set fs \<or> f \<in> set (fst (handle_messages lib p1 ms))"
    by (auto simp: Let_def split: prod.splits)
  then show ?case using message_typed [of f lib p m] h Cons.IH [of p1] by auto
qed

lemma messages_typed_pair:
  "handle_messages lib p ms = (fs, p') \<Longrightarrow> f \<in> set fs \<Longrightarrow> \<exists>y. frame_type f = Some y"
  using messages_typed [of f lib p ms] by auto

lemma message_typed_pair:
  "handle_message_chunk lib p m = (fs, p') \<Longrightarrow> f \<in> set fs \<Longrightarrow> \<exists>y. frame_type f = Some y"
  using message_typed [of f lib p m] by auto

lemma chunk_body_typed:
  "f \<in> set (fst (handle_chunk_body lib p c)) \<Longrightarrow> frame_type f \<noteq> None"
proof (cases c)
  case (Pair2 tag d)
  assume h: "f \<in> set (fst (handle_chunk_body lib p c))"
  show ?thesis
  proof (cases "tag = ''values''")
    case True
    with h Pair2 show ?thesis
      by (cases d) (auto simp: Let_def split: prod.splits if_splits sum.splits option.splits)
  next
    case False
    with h Pair2 show ?thesis
      by (cases d) (auto simp: Let_def split: prod.splits dest: messages_typed_pair message_typed_pair)
  qed
next
  case (MessageList ms)
  assume "f \<in> set (fst (handle_chunk_body lib p c))"
  with MessageList show ?thesis
    by (auto simp: Let_def split: prod.splits if_splits dest: messages_typed_pair message_typed_pair)
next
  case (Single m)
  assume "f \<in> set (fst (handle_chunk_body lib p c))"
  with Single show ?thesis by (auto simp: Let_def split: prod.splits dest: message_typed_pair)
qed

lemma chunk_typed:
  assumes "f \<in> set (fst (handle_chunk lib p c))"
  shows "frame_type f \<noteq> None"
proof -
  obtain fs p' r where b: "handle_chunk_body lib p c = (fs, p', r)"
    by (cases "handle_chunk_body lib p c")
  have "g \<in> set fs \<Longrightarrow> frame_type g \<noteq> None" for g
    using chunk_body_typed [of g lib p c] b by auto
  then show ?thesis using assms b
    by (cases r) (auto simp: handle_chunk_def)
qed

lemma run_chunks_typed:
  "f \<in> set (fst (run_chunks lib p cs)) \<Longrightarrow> frame_type f \<noteq> None"
proof (induction cs arbitrary: p)
  case Nil
  then show ?case by simp
next
  case (Cons c cs)
  obtain fs p1 where h: "handle_chunk lib p c = (fs, p1)"
    by (cases "handle_chunk lib p c")
  from Cons.prems h have "f \<in> set fs \<or> f \<in> set (fst (run_chunks lib p1 cs))"
    by (auto simp: Let_def split: prod.splits)
  then show ?case using chunk_typed [of f lib p c] h Cons.IH [of p1] by auto
qed



lemma run_chunks_no_done: "DoneMarker \<notin> set (fst (run_chunks lib p cs))"
  using run_chunks_typed [of DoneMarker lib p cs] by auto



text \<open>
  The two ends of \<^verbatim>\<open>process_stream\<close>: an exhausted source ends with the only terminal
  marker; a source that raises ends with the error record and no terminal marker. A failure
  before the stream starts is reported by \<^verbatim>\<open>process_chat_stream\<close>, followed by the marker.
\<close>

lemma process_stream_exhausted:
  assumes "convert_messages lib msgs = Inr ls" and "raised (agent ls (recursion_limit p)) = None"
  shows "last (process_stream lib p agent msgs) = DoneMarker
   \<and> count_list (process_stream lib p agent msgs) DoneMarker = 1"
proof -
  obtain fs q where r: "run_chunks lib p (emitted (agent ls (recursion_limit p))) = (fs, q)"
    by (cases "run_chunks lib p (emitted (agent ls (recursion_limit p)))")
  with run_chunks_no_done [of lib p "emitted (agent ls (recursion_limit p))"]
  have "DoneMarker \<notin> set fs" by simp
  then have "count_list fs DoneMarker = 0" by (simp add: count_list_0_iff)
  then show ?thesis using assms r by (simp add: process_stream_def)
qed

lemma process_stream_failed:
  assumes "convert_messages lib msgs = Inr ls" and "raised (agent ls (recursion_limit p)) = Some f"
  shows "last (process_stream lib p agent msgs) = driver_error_frame f
   \<and> DoneMarker \<notin> set (process_stream lib p agent msgs)"
proof -
  obtain fs q where r: "run_chunks lib p (emitted (agent ls (recursion_limit p))) = (fs, q)"
    by (cases "run_chunks lib p (emitted (agent ls (recursion_limit p)))")
  with run_chunks_no_done [of lib p "emitted (agent ls (recursion_limit p))"]
  have "DoneMarker \<notin> set fs" by simp
  then show ?thesis using assms r by (simp add: process_stream_def driver_error_frame_def)
qed

lemma process_chat_stream_setup_failed:
  "create_agent api_key built = Inl e \<Longrightarrow>
   process_chat_stream lib api_key built limit msgs = [Data (error_event e), DoneMarker]"
  by (simp add: process_chat_stream_def)

end
